theory Spec2Isabelle
  imports
    Complex_Main
    "HOL-Library.Char_ord"
    "HOL-Library.List_Lexorder"
    "HOL-Library.Multiset"
begin

section \<open>The expense tracker of \<^verbatim>\<open>app.py\<close>: ledger store and aggregation\<close>

text \<open>
  The program keeps its transactions in one SQLite table and reads and writes it through
  the methods of \<^verbatim>\<open>ExpenseDatabase\<close>. The table is modelled as the list of its rows in
  insertion order together with the counter SQLite keeps for an \<^verbatim>\<open>AUTOINCREMENT\<close> key.
  Every method takes the database and returns the database it leaves behind; an exception
  is a value of type \<open>error\<close>, returned beside the unchanged database (the statement that
  raised was never committed).

  Amounts are Python floats and SQLite \<^verbatim>\<open>REAL\<close>s: a finite number, an infinity or
  NaN. Texts are byte strings compared byte by byte, which is the order of SQLite's default
  \<^verbatim>\<open>BINARY\<close> collation. Keys are Python integers, which SQLite takes only in the signed
  64-bit range. The current date and time are read from a \<open>clock\<close> argument.
\<close>

subsection \<open>Python values and exceptions\<close>

datatype error = ValueError | IntegrityError | KeyError | OverflowError | TypeError

text \<open>
  A float is a finite number, one of the two infinities, or NaN. The sum of two finite
  floats is their exact sum, or an infinity once the exact sum reaches the bound where
  rounding to a double gives an infinity, \<open>2 ^ 1024 - 2 ^ 970\<close>. Rounding a sum
  below that bound to 53 bits is not modelled.
\<close>

datatype pyfloat = Fin real | PInf | NInf | NaN






text \<open>What a caller passes as an amount: a float, or a text (a form field).\<close>

datatype pyval = PyNum pyfloat | PyStr string

text \<open>
  \<^verbatim>\<open>float(amount)\<close>. On a float it is the float. On a text it is Python's own parser,
  which is not part of the repository: it is the parameter \<open>parse\<close>, and \<open>None\<close> is the
  text it refuses with \<^verbatim>\<open>ValueError\<close>. It accepts \<^verbatim>\<open>'inf'\<close>, \<^verbatim>\<open>'-inf'\<close> and
  \<^verbatim>\<open>'nan'\<close>.
\<close>

fun py_float :: "(string \<Rightarrow> pyfloat option) \<Rightarrow> pyval \<Rightarrow> error + pyfloat" where
  "py_float parse (PyNum x) = Inr x"
| "py_float parse (PyStr s) = (case parse s of None \<Rightarrow> Inl ValueError | Some x \<Rightarrow> Inr x)"

text \<open>
  \<^verbatim>\<open>datetime\<close> values and their \<^verbatim>\<open>isoformat()\<close>: \<^verbatim>\<open>YYYY-MM-DD\<close> for a date, and
  \<^verbatim>\<open>YYYY-MM-DDTHH:MM:SS\<close> for a date with time, followed by \<^verbatim>\<open>.ffffff\<close> when the
  microseconds are not zero. \<open>digits w n\<close> is the last \<open>w\<close> decimal digits of \<open>n\<close>.
\<close>

record pydate =
  year :: nat
  month :: nat
  day :: nat

record pydatetime =
  date_of :: pydate
  hour :: nat
  minute :: nat
  second :: nat
  microsecond :: nat

fun digits :: "nat \<Rightarrow> nat \<Rightarrow> string" where
  "digits 0 n = []"
| "digits (Suc w) n = digits w (n div 10) @ [''0123456789'' ! (n mod 10)]"

definition isoformat_date :: "pydate \<Rightarrow> string" where
  "isoformat_date d = digits 4 (year d) @ ''-'' @ digits 2 (month d) @ ''-'' @ digits 2 (day d)"

definition isoformat :: "pydatetime \<Rightarrow> string" where
  "isoformat t =
     isoformat_date (date_of t) @ ''T'' @ digits 2 (hour t) @ '':'' @ digits 2 (minute t) @ '':''
       @ digits 2 (second t)
       @ (if microsecond t = 0 then [] else ''.'' @ digits 6 (microsecond t))"

text \<open>
  The constructor reads \<^verbatim>\<open>datetime.now()\<close> once for the default date and once for the
  default time stamp. The clock holds the two readings.
\<close>

record clock =
  first_now :: pydatetime
  second_now :: pydatetime

definition today :: "clock \<Rightarrow> string" where
  "today clk = isoformat_date (date_of (first_now clk))"

definition now :: "clock \<Rightarrow> string" where
  "now clk = isoformat (second_now clk)"

text \<open>\<^verbatim>\<open>v or d\<close> on an optional text: \<^verbatim>\<open>None\<close> and the empty text are both falsy.\<close>

fun py_or :: "string option \<Rightarrow> string \<Rightarrow> string" where
  "py_or None d = d"
| "py_or (Some s) d = (if s = [] then d else s)"

subsection \<open>The class \<^verbatim>\<open>Transaction\<close>\<close>

record transaction =
  t_id :: "int option"
  t_type :: string
  t_amount :: pyfloat
  t_category :: string
  t_description :: string
  t_date :: string
  t_created_at :: string

text \<open>The assignments of \<^verbatim>\<open>__init__\<close> once \<^verbatim>\<open>float(amount)\<close> has returned.\<close>

definition Transaction_fields ::
  "clock \<Rightarrow> int option \<Rightarrow> string \<Rightarrow> pyfloat \<Rightarrow> string \<Rightarrow> string \<Rightarrow> string option
    \<Rightarrow> string option \<Rightarrow> transaction" where
  "Transaction_fields clk i ty a cat descr d ca =
     \<lparr>t_id = i, t_type = ty, t_amount = a, t_category = cat, t_description = descr,
      t_date = py_or d (today clk), t_created_at = py_or ca (now clk)\<rparr>"

definition Transaction_init ::
  "(string \<Rightarrow> pyfloat option) \<Rightarrow> clock \<Rightarrow> int option \<Rightarrow> string \<Rightarrow> pyval \<Rightarrow> string \<Rightarrow> string
    \<Rightarrow> string option \<Rightarrow> string option \<Rightarrow> error + transaction" where
  "Transaction_init parse clk i ty am cat descr d ca =
     (case py_float parse am of
        Inl e \<Rightarrow> Inl e
      | Inr a \<Rightarrow> Inr (Transaction_fields clk i ty a cat descr d ca))"

subsection \<open>The table \<^verbatim>\<open>transactions\<close>\<close>

record row =
  row_id :: int
  row_type :: string
  row_amount :: pyfloat
  row_category :: string
  row_description :: string
  row_date :: string
  row_created_at :: string

record database =
  rows :: "row list"
  sqlite_sequence :: int

text \<open>\<^verbatim>\<open>init_db\<close> on a new file: the table exists and is empty.\<close>

definition init_db :: database where
  "init_db = \<lparr>rows = [], sqlite_sequence = 0\<rparr>"

text \<open>The table's constraint \<^verbatim>\<open>CHECK(type IN ('income', 'expense'))\<close>.\<close>

definition type_check :: "string \<Rightarrow> bool" where
  "type_check ty = (ty = ''income'' \<or> ty = ''expense'')"

text \<open>
  A float bound to a statement or returned by one is an SQL value: a \<^verbatim>\<open>REAL\<close>, or
  \<^verbatim>\<open>NULL\<close>, which is what SQLite makes of NaN. A \<^verbatim>\<open>NULL\<close> amount breaks the column's
  \<^verbatim>\<open>NOT NULL\<close> constraint.
\<close>

fun sql_real :: "pyfloat \<Rightarrow> pyfloat option" where
  "sql_real NaN = None"
| "sql_real a = Some a"

text \<open>
  An integer bound to a statement must fit SQLite's signed 64 bits; the binding raises
  \<^verbatim>\<open>OverflowError\<close> otherwise.
\<close>

definition in_int64 :: "int \<Rightarrow> bool" where
  "in_int64 i = (- (2 ^ 63) \<le> i \<and> i < 2 ^ 63)"

text \<open>
  The key of an inserted row under \<^verbatim>\<open>AUTOINCREMENT\<close>: one more than the largest key the
  table ever held.
\<close>

definition next_rowid :: "database \<Rightarrow> int" where
  "next_rowid db = max (sqlite_sequence db) (fold max (map row_id (rows db)) 0) + 1"

text \<open>
  The row a query returns, turned into an object: both readers call the constructor with
  the seven columns. The amount is already a float, so \<^verbatim>\<open>float\<close> returns it.
\<close>

definition transaction_of_row :: "clock \<Rightarrow> row \<Rightarrow> transaction" where
  "transaction_of_row clk r =
     Transaction_fields clk (Some (row_id r)) (row_type r) (row_amount r) (row_category r)
       (row_description r) (Some (row_date r)) (Some (row_created_at r))"

subsection \<open>SQL: \<^verbatim>\<open>ORDER BY\<close>, \<^verbatim>\<open>LIMIT\<close>, \<^verbatim>\<open>GROUP BY\<close>\<close>

text \<open>
  Sorting by insertion under a comparison \<open>le\<close>. SQL leaves the order of rows with equal
  keys open; this sort keeps them in the order of the input.
\<close>

fun insort_by :: "('a \<Rightarrow> 'a \<Rightarrow> bool) \<Rightarrow> 'a \<Rightarrow> 'a list \<Rightarrow> 'a list" where
  "insort_by le x [] = [x]"
| "insort_by le x (y # ys) = (if le x y then x # y # ys else y # insort_by le x ys)"

definition sort_by :: "('a \<Rightarrow> 'a \<Rightarrow> bool) \<Rightarrow> 'a list \<Rightarrow> 'a list" where
  "sort_by le xs = foldr (insort_by le) xs []"

text \<open>\<^verbatim>\<open>ORDER BY date DESC, created_at DESC\<close>: \<open>r\<close> may stand before \<open>s\<close>.\<close>

definition date_desc :: "row \<Rightarrow> row \<Rightarrow> bool" where
  "date_desc r s =
     (row_date s < row_date r \<or> (row_date r = row_date s \<and> row_created_at s \<le> row_created_at r))"

text \<open>
  \<^verbatim>\<open>LIMIT n\<close> as SQLite reads it: no clause, or a negative bound, is no bound.
\<close>

fun sql_limit :: "int option \<Rightarrow> 'a list \<Rightarrow> 'a list" where
  "sql_limit None xs = xs"
| "sql_limit (Some n) xs = (if n < 0 then xs else take (nat n) xs)"






subsection \<open>Reading\<close>

text \<open>
  \<^verbatim>\<open>get_all_transactions\<close>. The clause \<^verbatim>\<open>LIMIT\<close> is added to the query under
  \<^verbatim>\<open>if limit:\<close>, which \<^verbatim>\<open>None\<close> and \<open>0\<close> both fail.
\<close>

fun limit_clause :: "int option \<Rightarrow> int option" where
  "limit_clause None = None"
| "limit_clause (Some n) = (if n = 0 then None else Some n)"

definition select_all :: "database \<Rightarrow> int option \<Rightarrow> row list" where
  "select_all db limit = sql_limit (limit_clause limit) (sort_by date_desc (rows db))"

definition get_all_transactions :: "clock \<Rightarrow> database \<Rightarrow> int option \<Rightarrow> transaction list" where
  "get_all_transactions clk db limit = map (transaction_of_row clk) (select_all db limit)"

text \<open>\<^verbatim>\<open>get_transaction_by_id\<close>: \<^verbatim>\<open>fetchone\<close> gives the first row of that key, or none.\<close>

definition get_transaction_by_id :: "clock \<Rightarrow> database \<Rightarrow> int \<Rightarrow> transaction option" where
  "get_transaction_by_id clk db i =
     map_option (transaction_of_row clk) (find (\<lambda>r. row_id r = i) (rows db))"

text \<open>
  The ordering contract of the listing, read on the objects it returns: \<open>a\<close> may stand
  before \<open>b\<close> when \<open>a\<close> has the later date, or the same date and a creation time that
  is not earlier.
\<close>

definition listed_before :: "transaction \<Rightarrow> transaction \<Rightarrow> bool" where
  "listed_before a b =
     (t_date b < t_date a \<or> (t_date a = t_date b \<and> t_created_at b \<le> t_created_at a))"

subsection \<open>Writing\<close>

text \<open>
  \<^verbatim>\<open>add_transaction\<close>: the \<^verbatim>\<open>INSERT\<close> fails on the \<^verbatim>\<open>CHECK\<close> constraint of the type
  or on the \<^verbatim>\<open>NOT NULL\<close> constraint of the amount, or appends a row under a fresh key and
  writes that key into the object.
\<close>

definition add_transaction :: "database \<Rightarrow> transaction \<Rightarrow> database \<times> (error + transaction)" where
  "add_transaction db t =
     (if type_check (t_type t) \<and> sql_real (t_amount t) \<noteq> None then
        (let i = next_rowid db in
           (\<lparr>rows = rows db @
               [\<lparr>row_id = i, row_type = t_type t, row_amount = t_amount t,
                 row_category = t_category t, row_description = t_description t,
                 row_date = t_date t, row_created_at = t_created_at t\<rparr>],
             sqlite_sequence = i\<rparr>,
            Inr (t\<lparr>t_id := Some i\<rparr>)))
      else (db, Inl IntegrityError))"

text \<open>
  Creating a transaction, as the route \<^verbatim>\<open>/add\<close> does: build the object from the form,
  then store it. An exception of either step leaves the table as it was.
\<close>

definition create ::
  "(string \<Rightarrow> pyfloat option) \<Rightarrow> clock \<Rightarrow> database \<Rightarrow> string \<Rightarrow> pyval \<Rightarrow> string \<Rightarrow> string
    \<Rightarrow> string option \<Rightarrow> database \<times> (error + transaction)" where
  "create parse clk db ty am cat descr d =
     (case Transaction_init parse clk None ty am cat descr d None of
        Inl e \<Rightarrow> (db, Inl e)
      | Inr t \<Rightarrow> add_transaction db t)"

text \<open>
  The argument \<^verbatim>\<open>transaction_data\<close> of \<^verbatim>\<open>update_transaction\<close>: a dictionary in which each
  of the five allowed keys is present or not. Other keys are never read.
\<close>

record patch =
  p_type :: "string option"
  p_amount :: "pyfloat option"
  p_category :: "string option"
  p_description :: "string option"
  p_date :: "string option"

text \<open>The list \<^verbatim>\<open>fields\<close> of \<^verbatim>\<open>SET\<close> fragments the loop over \<^verbatim>\<open>allowed_fields\<close> builds.\<close>

definition fields_list :: "patch \<Rightarrow> string list" where
  "fields_list p =
     (if p_type p = None then [] else [''type = ?'']) @
     (if p_amount p = None then [] else [''amount = ?'']) @
     (if p_category p = None then [] else [''category = ?'']) @
     (if p_description p = None then [] else [''description = ?'']) @
     (if p_date p = None then [] else [''date = ?''])"

text \<open>The \<^verbatim>\<open>SET\<close> clause on one row.\<close>

definition set_row :: "patch \<Rightarrow> row \<Rightarrow> row" where
  "set_row p r =
     r\<lparr>row_type := (case p_type p of None \<Rightarrow> row_type r | Some v \<Rightarrow> v),
       row_amount := (case p_amount p of None \<Rightarrow> row_amount r | Some v \<Rightarrow> v),
       row_category := (case p_category p of None \<Rightarrow> row_category r | Some v \<Rightarrow> v),
       row_description := (case p_description p of None \<Rightarrow> row_description r | Some v \<Rightarrow> v),
       row_date := (case p_date p of None \<Rightarrow> row_date r | Some v \<Rightarrow> v)\<rparr>"

text \<open>
  Whether the values of an \<^verbatim>\<open>UPDATE\<close> break a constraint of the table: a new type
  outside the \<^verbatim>\<open>CHECK\<close>, or a new amount that is \<^verbatim>\<open>NULL\<close>.
\<close>

definition breaks_constraint :: "patch \<Rightarrow> bool" where
  "breaks_constraint p =
     ((case p_type p of None \<Rightarrow> False | Some ty \<Rightarrow> \<not> type_check ty)
      \<or> (case p_amount p of None \<Rightarrow> False | Some a \<Rightarrow> sql_real a = None))"

text \<open>
  \<^verbatim>\<open>update_transaction\<close>. With no field it returns \<^verbatim>\<open>None\<close> at once. Binding a key
  outside the 64-bit range raises \<^verbatim>\<open>OverflowError\<close>. The \<^verbatim>\<open>UPDATE\<close> checks the
  constraints on the rows it changes only, so it raises \<^verbatim>\<open>IntegrityError\<close> only when a
  row has the key. \<^verbatim>\<open>rowcount\<close> is the number of rows of that key.
\<close>

definition update_transaction ::
  "clock \<Rightarrow> database \<Rightarrow> int \<Rightarrow> patch \<Rightarrow> database \<times> (error + transaction option)" where
  "update_transaction clk db i p =
     (if fields_list p = [] then (db, Inr None)
      else if \<not> in_int64 i then (db, Inl OverflowError)
      else
        (let rowcount = length (filter (\<lambda>r. row_id r = i) (rows db)) in
           if 0 < rowcount \<and> breaks_constraint p then (db, Inl IntegrityError)
           else
             (let db' = db\<lparr>rows := map (\<lambda>r. if row_id r = i then set_row p r else r) (rows db)\<rparr>
              in if 0 < rowcount then (db', Inr (get_transaction_by_id clk db' i))
                 else (db', Inr None))))"

text \<open>
  \<^verbatim>\<open>delete_transaction\<close>: binding a key outside the 64-bit range raises
  \<^verbatim>\<open>OverflowError\<close>; otherwise the result is the table without the rows of that key, and
  whether there was one.
\<close>

definition delete_transaction :: "database \<Rightarrow> int \<Rightarrow> database \<times> (error + bool)" where
  "delete_transaction db i =
     (if in_int64 i then
        (db\<lparr>rows := filter (\<lambda>r. row_id r \<noteq> i) (rows db)\<rparr>,
         Inr (0 < length (filter (\<lambda>r. row_id r = i) (rows db))))
      else (db, Inl OverflowError))"

subsection \<open>Aggregation\<close>

text \<open>
  The dictionary \<^verbatim>\<open>summary\<close>. The two totals are assigned from the query, where a total
  can be \<^verbatim>\<open>NULL\<close>, that is \<^verbatim>\<open>None\<close>; the net balance is a float.
\<close>

record summary =
  total_income :: "pyfloat option"
  total_expenses :: "pyfloat option"
  net_balance :: pyfloat
  income_count :: int
  expense_count :: int
  total_transactions :: int


text \<open>The body of the loop over the result rows in \<^verbatim>\<open>get_summary\<close>.\<close>

fun summary_row :: "string \<times> pyfloat option \<times> int \<Rightarrow> summary \<Rightarrow> summary" where
  "summary_row (ty, tot, cnt) s =
     (if ty = ''income'' then s\<lparr>total_income := tot, income_count := cnt\<rparr>
      else if ty = ''expense'' then s\<lparr>total_expenses := tot, expense_count := cnt\<rparr>
      else s)"










text \<open>The states the table's constraint allows: every stored type passes the \<^verbatim>\<open>CHECK\<close>.\<close>

definition types_ok :: "database \<Rightarrow> bool" where
  "types_ok db = list_all (\<lambda>r. type_check (row_type r)) (rows db)"

subsection \<open>Example states\<close>

text \<open>A clock, and a table of three rows as three calls of \<open>create\<close> leave it.\<close>

definition clock_example :: clock where
  "clock_example =
     \<lparr>first_now = \<lparr>date_of = \<lparr>year = 2024, month = 1, day = 5\<rparr>,
                    hour = 9, minute = 5, second = 0, microsecond = 0\<rparr>,
      second_now = \<lparr>date_of = \<lparr>year = 2024, month = 1, day = 5\<rparr>,
                     hour = 9, minute = 5, second = 0, microsecond = 0\<rparr>\<rparr>"

definition ledger_example :: database where
  "ledger_example =
     \<lparr>rows =
        [\<lparr>row_id = 1, row_type = ''income'', row_amount = Fin 1000, row_category = ''Salary'',
          row_description = ''January'', row_date = ''2024-01-01'',
          row_created_at = ''2024-01-05T09:05:00''\<rparr>,
         \<lparr>row_id = 2, row_type = ''expense'', row_amount = Fin 300, row_category = ''Food'',
          row_description = [], row_date = ''2024-01-03'',
          row_created_at = ''2024-01-05T09:06:00''\<rparr>,
         \<lparr>row_id = 3, row_type = ''expense'', row_amount = Fin 900, row_category = ''Rent'',
          row_description = [], row_date = ''2024-01-02'',
          row_created_at = ''2024-01-05T09:07:00''\<rparr>],
      sqlite_sequence = 3\<rparr>"

text \<open>The dictionaries \<^verbatim>\<open>{'category': 'X'}\<close>, \<^verbatim>\<open>{'date': ''}\<close> and \<^verbatim>\<open>{}\<close>.\<close>

definition category_patch :: patch where
  "category_patch =
     \<lparr>p_type = None, p_amount = None, p_category = Some ''X'', p_description = None,
      p_date = None\<rparr>"

definition empty_date_patch :: patch where
  "empty_date_patch =
     \<lparr>p_type = None, p_amount = None, p_category = None, p_description = None,
      p_date = Some []\<rparr>"

definition empty_patch :: patch where
  "empty_patch =
     \<lparr>p_type = None, p_amount = None, p_category = None, p_description = None,
      p_date = None\<rparr>"

text \<open>The dictionary \<^verbatim>\<open>{'type': 'bogus', 'category': 'X'}\<close>.\<close>

definition bogus_patch :: patch where
  "bogus_patch =
     \<lparr>p_type = Some ''bogus'', p_amount = None, p_category = Some ''X'', p_description = None,
      p_date = None\<rparr>"



text \<open>
  The table after two calls of \<open>create\<close> and the update \<^verbatim>\<open>{'date': ''}\<close> of the first
  row, which the route \<^verbatim>\<open>/edit\<close> makes when the form's date field is empty.
\<close>

definition ledger_empty_date :: database where
  "ledger_empty_date =
     fst (update_transaction clock_example
       (fst (create (\<lambda>s. None) clock_example
          (fst (create (\<lambda>s. None) clock_example init_db
             ''expense'' (PyNum (Fin 300)) ''Food'' [] (Some ''2024-01-03'')))
          ''expense'' (PyNum (Fin 900)) ''Rent'' [] (Some ''2024-01-02'')))
       1 empty_date_patch)"

section \<open>Properties\<close>

subsection \<open>Sorting and grouping\<close>

lemma mset_insort_by: "mset (insort_by le x xs) = add_mset x (mset xs)"
  by (induction xs) simp_all

lemma mset_sort_by: "mset (sort_by le xs) = mset xs"
  unfolding sort_by_def by (induction xs) (simp_all add: mset_insort_by)


lemma set_sort_by: "set (sort_by le xs) = set xs"
  using mset_sort_by [of le xs] by (metis set_mset_mset)





subsection \<open>Floats\<close>



lemma sql_real_eq_None: "sql_real a = None \<longleftrightarrow> a = NaN"
  by (cases a) simp_all






subsection \<open>The summary\<close>





lemma fold_summary_rest:
  "net_balance (fold summary_row rs s) = net_balance s
   \<and> total_transactions (fold summary_row rs s) = total_transactions s"
  by (induction rs arbitrary: s) auto












subsection \<open>Listing\<close>


subsection \<open>The summary by category\<close>

lemma set_insort_by: "set (insort_by le x xs) = insert x (set xs)"
  by (induction xs) auto

lemma sorted_insort_by:
  assumes total: "\<And>a b. le a b \<or> le b a"
    and trans: "\<And>a b c. le a b \<Longrightarrow> le b c \<Longrightarrow> le a c"
  shows "sorted_wrt le xs \<Longrightarrow> sorted_wrt le (insort_by le x xs)"
proof (induction xs)
  case Nil
  show ?case by simp
next
  case (Cons y ys)
  show ?case
  proof (cases "le x y")
    case True
    with Cons.prems trans show ?thesis by auto
  next
    case False
    with total have "le y x" by blast
    with Cons False show ?thesis by (auto simp: set_insort_by)
  qed
qed

lemma sorted_sort_by:
  assumes total: "\<And>a b. le a b \<or> le b a"
    and trans: "\<And>a b c. le a b \<Longrightarrow> le b c \<Longrightarrow> le a c"
  shows "sorted_wrt le (sort_by le xs)"
  unfolding sort_by_def
  by (induction xs) (simp_all add: sorted_insort_by [OF total trans])























subsection \<open>Deleting\<close>

text \<open>
  Claim C9, as the code has it. For every key in the signed 64-bit range,
  \<^verbatim>\<open>delete_transaction\<close> raises nothing, returns true exactly when a row of the key was
  stored, and removes the rows of that key and no other. A second call with the same key
  returns false.
\<close>

theorem delete_transaction_result:
  "in_int64 i \<longrightarrow>
     snd (delete_transaction db i) = Inr (i \<in> row_id ` set (rows db))
     \<and> rows (fst (delete_transaction db i)) = filter (\<lambda>r. row_id r \<noteq> i) (rows db)
     \<and> sqlite_sequence (fst (delete_transaction db i)) = sqlite_sequence db
     \<and> i \<notin> row_id ` set (rows (fst (delete_transaction db i)))
     \<and> snd (delete_transaction (fst (delete_transaction db i)) i) = Inr False"
  by (auto simp: delete_transaction_def filter_empty_conv)

theorem delete_transaction_result_witness:
  "in_int64 2
   \<and> snd (delete_transaction ledger_example 2) = Inr True
   \<and> map row_id (rows (fst (delete_transaction ledger_example 2))) = [1, 3]
   \<and> snd (delete_transaction (fst (delete_transaction ledger_example 2)) 2) = Inr False"
proof -
  have k: "in_int64 2" by (simp add: in_int64_def)
  have m: "2 \<in> row_id ` set (rows ledger_example)"
    by (simp add: ledger_example_def)
  have f: "map row_id (filter (\<lambda>r. row_id r \<noteq> 2) (rows ledger_example)) = [1, 3]"
    by (simp add: ledger_example_def)
  from delete_transaction_result [of 2 ledger_example] k m f show ?thesis by simp
qed

text \<open>
  A key of \<open>2 ^ 63\<close>, which the route \<^verbatim>\<open>/delete/<int:transaction_id>\<close> passes on: the
  binding raises \<^verbatim>\<open>OverflowError\<close>.
\<close>

theorem delete_raises_on_large_key:
  "delete_transaction ledger_example (2 ^ 63) = (ledger_example, Inl OverflowError)"
  by (simp add: delete_transaction_def in_int64_def)

subsection \<open>Creating and reading back\<close>

lemma digits_2: "digits 2 n = [''0123456789'' ! (n div 10 mod 10), ''0123456789'' ! (n mod 10)]"
proof -
  have "digits (Suc (Suc 0)) n = [''0123456789'' ! (n div 10 mod 10), ''0123456789'' ! (n mod 10)]"
    by simp
  moreover have "(2::nat) = Suc (Suc 0)" by simp
  ultimately show ?thesis by (simp only:)
qed

lemma digits_4:
  "digits 4 n = [''0123456789'' ! (n div 1000 mod 10), ''0123456789'' ! (n div 100 mod 10),
                 ''0123456789'' ! (n div 10 mod 10), ''0123456789'' ! (n mod 10)]"
proof -
  have "digits (Suc (Suc (Suc (Suc 0)))) n =
      [''0123456789'' ! (n div 1000 mod 10), ''0123456789'' ! (n div 100 mod 10),
       ''0123456789'' ! (n div 10 mod 10), ''0123456789'' ! (n mod 10)]"
    by (simp add: div_mult2_eq [symmetric])
  moreover have "(4::nat) = Suc (Suc (Suc (Suc 0)))" by simp
  ultimately show ?thesis by (simp only:)
qed

lemma today_example: "today clock_example = ''2024-01-05''"
  by (simp add: today_def clock_example_def isoformat_date_def digits_4 digits_2)

lemma now_example: "now clock_example = ''2024-01-05T09:05:00''"
  by (simp add: now_def clock_example_def isoformat_def isoformat_date_def digits_4 digits_2)

lemma today_nonempty: "today clk \<noteq> []"
  by (simp add: today_def isoformat_date_def)

lemma now_nonempty: "now clk \<noteq> []"
  by (simp add: now_def isoformat_def isoformat_date_def)

lemma py_or_nonempty: "d \<noteq> [] \<Longrightarrow> py_or v d \<noteq> []"
  by (cases v) auto

lemma py_or_stored: "s \<noteq> [] \<Longrightarrow> py_or (Some s) d = s"
  by simp

lemma fold_max_lower: "(a::int) \<le> fold max xs a"
proof (induction xs arbitrary: a)
  case Nil
  show ?case by simp
next
  case (Cons x xs)
  have "a \<le> max x a" by simp
  also have "\<dots> \<le> fold max xs (max x a)" by (rule Cons.IH)
  finally show ?case by simp
qed

lemma fold_max_upper: "x \<in> set xs \<Longrightarrow> (x::int) \<le> fold max xs a"
proof (induction xs arbitrary: a)
  case Nil
  then show ?case by simp
next
  case (Cons y ys)
  show ?case
  proof (cases "x = y")
    case True
    have "x \<le> max y a" using True by simp
    also have "\<dots> \<le> fold max ys (max y a)" by (rule fold_max_lower)
    finally show ?thesis by simp
  next
    case False
    with Cons.prems have "x \<in> set ys" by simp
    then show ?thesis using Cons.IH by simp
  qed
qed

lemma next_rowid_fresh: "r \<in> set (rows db) \<Longrightarrow> row_id r < next_rowid db"
proof -
  assume "r \<in> set (rows db)"
  then have "row_id r \<in> set (map row_id (rows db))" by simp
  then have "row_id r \<le> fold max (map row_id (rows db)) 0" by (rule fold_max_upper)
  then show ?thesis by (simp add: next_rowid_def)
qed

lemma find_fresh: "find (\<lambda>r. row_id r = next_rowid db) (rows db) = None"
proof -
  have "row_id r \<noteq> next_rowid db" if "r \<in> set (rows db)" for r
    using next_rowid_fresh [OF that] by simp
  then show ?thesis by (simp add: find_None_iff)
qed

lemma find_snoc:
  "find P (xs @ [y]) = (case find P xs of None \<Rightarrow> if P y then Some y else None | Some x \<Rightarrow> Some x)"
  by (induction xs) simp_all

lemma transaction_of_row_stored:
  assumes "row_date r \<noteq> []" and "row_created_at r \<noteq> []"
  shows "transaction_of_row clk r =
     \<lparr>t_id = Some (row_id r), t_type = row_type r, t_amount = row_amount r,
      t_category = row_category r, t_description = row_description r,
      t_date = row_date r, t_created_at = row_created_at r\<rparr>"
  using assms by (simp add: transaction_of_row_def Transaction_fields_def)

text \<open>
  Claim C5. For every input whose amount \<^verbatim>\<open>float\<close> turns into a number, finite or
  infinite, and whose type passes the \<^verbatim>\<open>CHECK\<close> constraint, creating succeeds, and \<^verbatim>\<open>get_transaction_by_id\<close> with the key
  of the returned object, at any later time, returns an object equal to the returned one:
  type, amount, category and description as supplied, the date as supplied (today's date
  when none or an empty one was supplied), and the key and creation time now filled in.
\<close>

theorem create_then_get:
  assumes "py_float parse am = Inr a" and "a \<noteq> NaN" and "type_check ty"
  shows "\<exists>db' t i. create parse clk db ty am cat descr d = (db', Inr t)
    \<and> t_id t = Some i
    \<and> get_transaction_by_id clk' db' i = Some t
    \<and> t_type t = ty \<and> t_amount t = a \<and> t_category t = cat \<and> t_description t = descr
    \<and> t_date t = py_or d (today clk) \<and> t_created_at t = now clk"
proof -
  let ?t = "Transaction_fields clk None ty a cat descr d None"
  let ?i = "next_rowid db"
  let ?r = "\<lparr>row_id = ?i, row_type = ty, row_amount = a, row_category = cat,
             row_description = descr, row_date = py_or d (today clk), row_created_at = now clk\<rparr>"
  let ?db = "\<lparr>rows = rows db @ [?r], sqlite_sequence = ?i\<rparr>"
  have c: "create parse clk db ty am cat descr d = (?db, Inr (?t\<lparr>t_id := Some ?i\<rparr>))"
    using assms
    by (simp add: create_def Transaction_init_def add_transaction_def Let_def
        Transaction_fields_def sql_real_eq_None)
  have f: "find (\<lambda>r. row_id r = ?i) (rows ?db) = Some ?r"
    by (simp add: find_snoc find_fresh)
  have "transaction_of_row clk' ?r = ?t\<lparr>t_id := Some ?i\<rparr>"
    by (simp add: transaction_of_row_stored py_or_nonempty today_nonempty now_nonempty
        Transaction_fields_def)
  with f have g: "get_transaction_by_id clk' ?db ?i = Some (?t\<lparr>t_id := Some ?i\<rparr>)"
    by (simp add: get_transaction_by_id_def)
  show ?thesis
    using c g by (simp add: Transaction_fields_def)
qed

theorem create_then_get_witness:
  "py_float (\<lambda>s. if s = ''12.50'' then Some (Fin 12.5) else None) (PyStr ''12.50'') =
     Inr (Fin 12.5)
   \<and> Fin 12.5 \<noteq> NaN
   \<and> type_check ''expense''
   \<and> (\<exists>db' t i.
         create (\<lambda>s. if s = ''12.50'' then Some (Fin 12.5) else None) clock_example ledger_example
           ''expense'' (PyStr ''12.50'') ''Food'' ''lunch'' None = (db', Inr t)
       \<and> t_id t = Some i
       \<and> get_transaction_by_id clock_example db' i = Some t
       \<and> t_type t = ''expense'' \<and> t_amount t = Fin 12.5 \<and> t_category t = ''Food''
       \<and> t_description t = ''lunch''
       \<and> t_date t = py_or None (today clock_example) \<and> t_created_at t = now clock_example)"
proof -
  have a: "py_float (\<lambda>s. if s = ''12.50'' then Some (Fin 12.5) else None) (PyStr ''12.50'') =
      Inr (Fin 12.5)"
    by simp
  have n: "Fin 12.5 \<noteq> NaN" by simp
  have k: "type_check ''expense''" by (simp add: type_check_def)
  from create_then_get [OF a n k] a n k show ?thesis by blast
qed

subsection \<open>Updating\<close>

lemma map_no_match: "\<forall>r \<in> set xs. \<not> P r \<Longrightarrow> map (\<lambda>r. if P r then f r else r) xs = xs"
  by (induction xs) simp_all

lemma filter_no_match: "\<forall>r \<in> set xs. \<not> P r \<Longrightarrow> filter P xs = []"
  by (induction xs) simp_all

lemma find_map_update:
  assumes "\<And>r. P (f r) = P r"
  shows "find P (map (\<lambda>r. if P r then f r else r) xs) = map_option f (find P xs)"
  using assms by (induction xs) simp_all

lemma filter_map_other:
  assumes "\<And>r. Q (f r) = Q r" and "\<And>r. Q r \<Longrightarrow> \<not> P r"
  shows "filter Q (map (\<lambda>r. if P r then f r else r) xs) = filter Q xs"
  using assms by (induction xs) auto

lemma set_row_id: "row_id (set_row p r) = row_id r"
  by (simp add: set_row_def)

lemma fields_empty:
  "fields_list p = [] \<longleftrightarrow>
     p_type p = None \<and> p_amount p = None \<and> p_category p = None \<and> p_description p = None
       \<and> p_date p = None"
  by (simp add: fields_list_def)

lemma set_row_empty: "fields_list p = [] \<Longrightarrow> set_row p r = r"
  by (simp add: fields_empty set_row_def)

lemma update_keeps_keys:
  "map row_id (rows (fst (update_transaction clk db i p))) = map row_id (rows db)
   \<and> map row_created_at (rows (fst (update_transaction clk db i p))) =
       map row_created_at (rows db)"
proof -
  let ?db = "db\<lparr>rows := map (\<lambda>r. if row_id r = i then set_row p r else r) (rows db)\<rparr>"
  have ids: "map row_id (rows ?db) = map row_id (rows db)"
    by (simp add: set_row_id comp_def if_distrib [of row_id] cong: if_cong)
  have cas: "map row_created_at (rows ?db) = map row_created_at (rows db)"
    by (simp add: set_row_def comp_def if_distrib [of row_created_at] cong: if_cong)
  have out: "fst (update_transaction clk db i p) = db \<or> fst (update_transaction clk db i p) = ?db"
    by (simp add: update_transaction_def Let_def)
  show ?thesis
    using out ids cas by (elim disjE) (simp_all only:)
qed

text \<open>
  Claim C4, as the code has it. No call of \<^verbatim>\<open>update_transaction\<close> changes the key or the
  creation time of any row. When a row of the key is stored, the key is in the signed 64-bit
  range, the supplied type, if any, passes the \<^verbatim>\<open>CHECK\<close> constraint and the supplied
  amount, if any, is not NaN, the call succeeds and leaves under that key a row in which
  each supplied field has replaced the stored one and each field not supplied is as it
  was; the rows of other keys are untouched.
\<close>

theorem update_replaces_supplied:
  "map row_id (rows (fst (update_transaction clk db i p))) = map row_id (rows db)
   \<and> map row_created_at (rows (fst (update_transaction clk db i p))) =
       map row_created_at (rows db)
   \<and> (find (\<lambda>r. row_id r = i) (rows db) = Some r \<and> in_int64 i \<and> \<not> breaks_constraint p \<longrightarrow>
       (\<exists>db' res r'. update_transaction clk db i p = (db', Inr res)
          \<and> find (\<lambda>r. row_id r = i) (rows db') = Some r'
          \<and> row_id r' = row_id r
          \<and> row_created_at r' = row_created_at r
          \<and> row_type r' = (case p_type p of None \<Rightarrow> row_type r | Some v \<Rightarrow> v)
          \<and> row_amount r' = (case p_amount p of None \<Rightarrow> row_amount r | Some v \<Rightarrow> v)
          \<and> row_category r' = (case p_category p of None \<Rightarrow> row_category r | Some v \<Rightarrow> v)
          \<and> row_description r' =
              (case p_description p of None \<Rightarrow> row_description r | Some v \<Rightarrow> v)
          \<and> row_date r' = (case p_date p of None \<Rightarrow> row_date r | Some v \<Rightarrow> v)
          \<and> filter (\<lambda>r. row_id r \<noteq> i) (rows db') = filter (\<lambda>r. row_id r \<noteq> i) (rows db)
          \<and> sqlite_sequence db' = sqlite_sequence db))"
proof -
  let ?P = "\<lambda>r. row_id r = i"
  let ?db = "db\<lparr>rows := map (\<lambda>r. if ?P r then set_row p r else r) (rows db)\<rparr>"
  have upd: "\<exists>db' res r'. update_transaction clk db i p = (db', Inr res)
      \<and> find ?P (rows db') = Some r'
      \<and> row_id r' = row_id r
      \<and> row_created_at r' = row_created_at r
      \<and> row_type r' = (case p_type p of None \<Rightarrow> row_type r | Some v \<Rightarrow> v)
      \<and> row_amount r' = (case p_amount p of None \<Rightarrow> row_amount r | Some v \<Rightarrow> v)
      \<and> row_category r' = (case p_category p of None \<Rightarrow> row_category r | Some v \<Rightarrow> v)
      \<and> row_description r' =
          (case p_description p of None \<Rightarrow> row_description r | Some v \<Rightarrow> v)
      \<and> row_date r' = (case p_date p of None \<Rightarrow> row_date r | Some v \<Rightarrow> v)
      \<and> filter (\<lambda>r. row_id r \<noteq> i) (rows db') = filter (\<lambda>r. row_id r \<noteq> i) (rows db)
      \<and> sqlite_sequence db' = sqlite_sequence db"
    if stored: "find ?P (rows db) = Some r" and key: "in_int64 i"
      and valid: "\<not> breaks_constraint p"
  proof -
    have fnd: "find ?P (rows ?db) = Some (set_row p r)"
      using stored by (simp add: find_map_update set_row_id)
    have oth: "filter (\<lambda>r. row_id r \<noteq> i) (rows ?db) = filter (\<lambda>r. row_id r \<noteq> i) (rows db)"
      by (simp add: filter_map_other set_row_id)
    have row: "row_id (set_row p r) = row_id r
      \<and> row_created_at (set_row p r) = row_created_at r
      \<and> row_type (set_row p r) = (case p_type p of None \<Rightarrow> row_type r | Some v \<Rightarrow> v)
      \<and> row_amount (set_row p r) = (case p_amount p of None \<Rightarrow> row_amount r | Some v \<Rightarrow> v)
      \<and> row_category (set_row p r) = (case p_category p of None \<Rightarrow> row_category r | Some v \<Rightarrow> v)
      \<and> row_description (set_row p r) =
          (case p_description p of None \<Rightarrow> row_description r | Some v \<Rightarrow> v)
      \<and> row_date (set_row p r) = (case p_date p of None \<Rightarrow> row_date r | Some v \<Rightarrow> v)"
      by (simp add: set_row_def)
    show ?thesis
    proof (cases "fields_list p = []")
      case True
      then have u: "update_transaction clk db i p = (db, Inr None)"
        by (simp add: update_transaction_def)
      have "set_row p r = r" using True by (rule set_row_empty)
      with row u stored show ?thesis by auto
    next
      case False
      from stored have "r \<in> set (rows db) \<and> ?P r"
        by (auto simp: find_Some_iff in_set_conv_nth)
      then have "filter ?P (rows db) \<noteq> []"
        by (auto simp: filter_empty_conv)
      then have u: "update_transaction clk db i p =
          (?db, Inr (get_transaction_by_id clk ?db i))"
        using False key valid by (simp add: update_transaction_def Let_def)
      from u fnd oth row show ?thesis by auto
    qed
  qed
  from update_keeps_keys [of clk db i p] upd show ?thesis by blast
qed

theorem update_replaces_supplied_witness:
  "find (\<lambda>r. row_id r = 2) (rows ledger_example) = Some (rows ledger_example ! 1)
   \<and> in_int64 2
   \<and> \<not> breaks_constraint category_patch
   \<and> (\<exists>db' res r'.
         update_transaction clock_example ledger_example 2 category_patch = (db', Inr res)
       \<and> find (\<lambda>r. row_id r = 2) (rows db') = Some r'
       \<and> row_id r' = 2
       \<and> row_created_at r' = ''2024-01-05T09:06:00''
       \<and> row_type r' = ''expense''
       \<and> row_amount r' = Fin 300
       \<and> row_category r' = ''X''
       \<and> row_description r' = []
       \<and> row_date r' = ''2024-01-03'')"
proof -
  have s: "find (\<lambda>r. row_id r = 2) (rows ledger_example) = Some (rows ledger_example ! 1)"
    by (simp add: ledger_example_def)
  have k: "in_int64 2" by (simp add: in_int64_def)
  have v: "\<not> breaks_constraint category_patch"
    by (simp add: breaks_constraint_def category_patch_def)
  from update_replaces_supplied
    [of clock_example ledger_example 2 category_patch "rows ledger_example ! 1"] s k v
  obtain db' res r' where
    "update_transaction clock_example ledger_example 2 category_patch = (db', Inr res)"
    "find (\<lambda>r. row_id r = 2) (rows db') = Some r'"
    "row_id r' = row_id (rows ledger_example ! 1)"
    "row_created_at r' = row_created_at (rows ledger_example ! 1)"
    "row_type r' =
       (case p_type category_patch of None \<Rightarrow> row_type (rows ledger_example ! 1) | Some v \<Rightarrow> v)"
    "row_amount r' =
       (case p_amount category_patch of None \<Rightarrow> row_amount (rows ledger_example ! 1)
        | Some v \<Rightarrow> v)"
    "row_category r' =
       (case p_category category_patch of None \<Rightarrow> row_category (rows ledger_example ! 1)
        | Some v \<Rightarrow> v)"
    "row_description r' =
       (case p_description category_patch of None \<Rightarrow> row_description (rows ledger_example ! 1)
        | Some v \<Rightarrow> v)"
    "row_date r' =
       (case p_date category_patch of None \<Rightarrow> row_date (rows ledger_example ! 1) | Some v \<Rightarrow> v)"
    by blast
  then have "update_transaction clock_example ledger_example 2 category_patch = (db', Inr res)
       \<and> find (\<lambda>r. row_id r = 2) (rows db') = Some r'
       \<and> row_id r' = 2
       \<and> row_created_at r' = ''2024-01-05T09:06:00''
       \<and> row_type r' = ''expense''
       \<and> row_amount r' = Fin 300
       \<and> row_category r' = ''X''
       \<and> row_description r' = []
       \<and> row_date r' = ''2024-01-03''"
    by (simp add: ledger_example_def category_patch_def)
  with s k v show ?thesis by blast
qed

text \<open>
  An update of the stored key 2 that supplies the type \<^verbatim>\<open>bogus\<close> and the category
  \<^verbatim>\<open>X\<close>: the \<^verbatim>\<open>UPDATE\<close> raises \<^verbatim>\<open>IntegrityError\<close> and no supplied field replaces a
  stored one; the category stays \<^verbatim>\<open>Food\<close>.
\<close>

theorem update_rejects_bogus_type:
  "update_transaction clock_example ledger_example 2 bogus_patch =
     (ledger_example, Inl IntegrityError)
   \<and> map row_category (rows (fst (update_transaction clock_example ledger_example 2 bogus_patch)))
       = [''Salary'', ''Food'', ''Rent'']"
  by (simp add: update_transaction_def ledger_example_def bogus_patch_def fields_list_def
      in_int64_def breaks_constraint_def type_check_def)

subsection \<open>Updates that change nothing\<close>

lemma update_missing_id:
  assumes "in_int64 i" and "i \<notin> row_id ` set (rows db)"
  shows "update_transaction clk db i p = (db, Inr None)"
proof -
  from assms(2) have no: "\<forall>r \<in> set (rows db). \<not> row_id r = i" by auto
  have f: "filter (\<lambda>r. row_id r = i) (rows db) = []"
    using no by (rule filter_no_match)
  have m: "map (\<lambda>r. if row_id r = i then set_row p r else r) (rows db) = rows db"
    using no by (rule map_no_match)
  show ?thesis
    using assms(1) by (simp add: update_transaction_def Let_def f m)
qed

text \<open>
  Claim C6, as the code has it. \<^verbatim>\<open>update_transaction\<close> returns \<^verbatim>\<open>None\<close>, raises nothing
  and leaves the table as it was, both when the key is in the signed 64-bit range and no
  row has it and when no field is supplied: the two results are the same value.
\<close>

theorem update_none_twice:
  "(in_int64 i \<and> i \<notin> row_id ` set (rows db) \<longrightarrow>
      update_transaction clk db i p = (db, Inr None))
   \<and> (fields_list q = [] \<longrightarrow> update_transaction clk db j q = (db, Inr None))"
  by (simp add: update_missing_id) (simp add: update_transaction_def)

theorem update_none_twice_witness:
  "in_int64 99
   \<and> 99 \<notin> row_id ` set (rows ledger_example)
   \<and> fields_list empty_patch = []
   \<and> update_transaction clock_example ledger_example 99 category_patch = (ledger_example, Inr None)
   \<and> update_transaction clock_example ledger_example 2 empty_patch = (ledger_example, Inr None)"
proof -
  have k: "in_int64 99" by (simp add: in_int64_def)
  have a: "99 \<notin> row_id ` set (rows ledger_example)"
    by (simp add: ledger_example_def)
  have b: "fields_list empty_patch = []"
    by (simp add: fields_list_def empty_patch_def)
  from update_none_twice [of 99 ledger_example clock_example category_patch empty_patch 2] k a b
  show ?thesis by blast
qed

text \<open>
  On the example table, the update of the missing key 99 and the update of the stored key
  2 with no field both return \<^verbatim>\<open>None\<close>: neither raises, and the results are equal.
\<close>

theorem update_failures_same_result:
  "snd (update_transaction clock_example ledger_example 99 category_patch) = Inr None
   \<and> snd (update_transaction clock_example ledger_example 2 empty_patch) = Inr None
   \<and> snd (update_transaction clock_example ledger_example 99 category_patch) =
       snd (update_transaction clock_example ledger_example 2 empty_patch)"
  by (simp add: update_transaction_def ledger_example_def category_patch_def empty_patch_def
      fields_list_def in_int64_def)

subsection \<open>Rejected input\<close>

text \<open>
  Claim C1, as the code has it. Creating fails and leaves the table as it was when the
  amount is one \<^verbatim>\<open>float\<close> refuses (the constructor raises \<^verbatim>\<open>ValueError\<close>) or when the type
  is neither income nor expense (the \<^verbatim>\<open>INSERT\<close> raises \<^verbatim>\<open>IntegrityError\<close> on the
  \<^verbatim>\<open>CHECK\<close> constraint); so it does for the type \<^verbatim>\<open>bogus\<close> with the amount 10.
\<close>

theorem create_rejects:
  "(py_float parse am = Inl ValueError \<longrightarrow>
      create parse clk db ty am cat descr d = (db, Inl ValueError))
   \<and> (py_float parse am \<noteq> Inl ValueError \<and> \<not> type_check ty \<longrightarrow>
      create parse clk db ty am cat descr d = (db, Inl IntegrityError))
   \<and> create parse clk db ''bogus'' (PyNum (Fin 10)) cat descr d = (db, Inl IntegrityError)"
proof -
  have v: "py_float parse am = Inl ValueError \<or> (\<exists>a. py_float parse am = Inr a)"
    by (cases am) (auto split: option.splits)
  have b: "\<not> type_check ''bogus''" by (simp add: type_check_def)
  show ?thesis
    using v b
    by (auto simp: create_def Transaction_init_def Transaction_fields_def add_transaction_def)
qed

theorem create_rejects_witness:
  "py_float (\<lambda>s. None) (PyStr ''abc'') = Inl ValueError
   \<and> create (\<lambda>s. None) clock_example ledger_example ''expense'' (PyStr ''abc'') ''Food'' []
       (Some ''2024-01-04'') = (ledger_example, Inl ValueError)
   \<and> py_float (\<lambda>s. None) (PyNum (Fin 10)) \<noteq> Inl ValueError
   \<and> \<not> type_check ''bogus''
   \<and> create (\<lambda>s. None) clock_example ledger_example ''bogus'' (PyNum (Fin 10)) ''Food'' []
       (Some ''2024-01-04'') = (ledger_example, Inl IntegrityError)"
proof -
  have a: "py_float (\<lambda>s. None) (PyStr ''abc'') = Inl ValueError" by simp
  have b: "py_float (\<lambda>s. None) (PyNum (Fin 10)) \<noteq> Inl ValueError" by simp
  have c: "\<not> type_check ''bogus''" by (simp add: type_check_def)
  from create_rejects [of "\<lambda>s. None" "PyStr ''abc''" clock_example ledger_example "''expense''"
      "''Food''" "[]" "Some ''2024-01-04''"] a
  have 1: "create (\<lambda>s. None) clock_example ledger_example ''expense'' (PyStr ''abc'') ''Food'' []
       (Some ''2024-01-04'') = (ledger_example, Inl ValueError)" by blast
  from create_rejects [of "\<lambda>s. None" "PyNum (Fin 10)" clock_example ledger_example "''bogus''"
      "''Food''" "[]" "Some ''2024-01-04''"] b c
  have 2: "create (\<lambda>s. None) clock_example ledger_example ''bogus'' (PyNum (Fin 10)) ''Food'' []
       (Some ''2024-01-04'') = (ledger_example, Inl IntegrityError)" by blast
  from a b c 1 2 show ?thesis by blast
qed

text \<open>
  Nothing checks the sign of the amount: an expense of \<open>-5\<close> is created and stored.
\<close>

theorem create_accepts_negative_amount:
  "create (\<lambda>s. None) clock_example init_db ''expense'' (PyNum (Fin (- 5))) ''Food'' []
     (Some ''2024-01-04'') =
   (\<lparr>rows = [\<lparr>row_id = 1, row_type = ''expense'', row_amount = Fin (- 5),
              row_category = ''Food'', row_description = [], row_date = ''2024-01-04'',
              row_created_at = ''2024-01-05T09:05:00''\<rparr>],
     sqlite_sequence = 1\<rparr>,
    Inr \<lparr>t_id = Some 1, t_type = ''expense'', t_amount = Fin (- 5), t_category = ''Food'',
         t_description = [], t_date = ''2024-01-04'', t_created_at = ''2024-01-05T09:05:00''\<rparr>)"
  by (simp add: create_def Transaction_init_def Transaction_fields_def add_transaction_def
      next_rowid_def init_db_def type_check_def now_example)

subsection \<open>The order of the listing\<close>

lemma sorted_date_desc: "sorted_wrt date_desc (sort_by date_desc xs)"
proof (rule sorted_sort_by)
  show "date_desc a b \<or> date_desc b a" for a b
    unfolding date_desc_def by (metis linorder_less_linear linorder_linear)
  show "date_desc a c" if "date_desc a b" and "date_desc b c" for a b c
    using that unfolding date_desc_def
    by (metis order.strict_trans order.trans)
qed

lemma listed_before_stored:
  assumes "row_date r \<noteq> []" "row_created_at r \<noteq> []" "row_date s \<noteq> []" "row_created_at s \<noteq> []"
  shows "listed_before (transaction_of_row clk r) (transaction_of_row clk s) = date_desc r s"
  using assms by (simp add: transaction_of_row_stored listed_before_def date_desc_def)

lemma transaction_of_row_id: "t_id (transaction_of_row clk r) = Some (row_id r)"
  by (simp add: transaction_of_row_def Transaction_fields_def)

text \<open>
  The rows are read in the order of the query, all of them, and the three transactions of
  the ordering example are listed as 2024-01-03, 2024-01-02, 2024-01-01.
\<close>

lemma select_all_ordered:
  "mset (select_all db None) = mset (rows db)
   \<and> sorted_wrt date_desc (select_all db None)
   \<and> map t_id (get_all_transactions clk db None) = map (\<lambda>r. Some (row_id r)) (select_all db None)"
  by (simp add: select_all_def get_all_transactions_def mset_sort_by sorted_date_desc
      transaction_of_row_id)

lemma three_creates_listed:
  assumes "type_check k1" "type_check k2" "type_check k3"
  shows "map t_date (get_all_transactions clk
      (fst (create parse c3
        (fst (create parse c2
          (fst (create parse c1 init_db k1 (PyNum (Fin a1)) g1 e1 (Some ''2024-01-01'')))
          k2 (PyNum (Fin a2)) g2 e2 (Some ''2024-01-03'')))
        k3 (PyNum (Fin a3)) g3 e3 (Some ''2024-01-02''))) None) =
    [''2024-01-03'', ''2024-01-02'', ''2024-01-01'']"
  using assms
  by (simp add: create_def Transaction_init_def Transaction_fields_def add_transaction_def
      init_db_def Let_def get_all_transactions_def select_all_def sort_by_def date_desc_def
      transaction_of_row_def)

text \<open>
  When no stored date and no stored creation time is empty, the objects carry the stored
  values and the listing is in descending order of its own dates and creation times.
\<close>

lemma listing_sorted_when_stored:
  assumes "\<forall>r \<in> set (rows db). row_date r \<noteq> [] \<and> row_created_at r \<noteq> []"
  shows "sorted_wrt listed_before (get_all_transactions clk db None)"
proof -
  let ?s = "select_all db None"
  have sel: "?s = sort_by date_desc (rows db)" by (simp add: select_all_def)
  have ne: "row_date r \<noteq> [] \<and> row_created_at r \<noteq> []" if "r \<in> set ?s" for r
    using that assms by (simp add: sel set_sort_by)
  have srt: "sorted_wrt date_desc ?s" by (simp add: sel sorted_date_desc)
  have "sorted_wrt (\<lambda>r s. listed_before (transaction_of_row clk r) (transaction_of_row clk s)) ?s"
    using srt
  proof (rule sorted_wrt_mono_rel [rotated])
    fix r s assume "r \<in> set ?s" "s \<in> set ?s" "date_desc r s"
    then show "listed_before (transaction_of_row clk r) (transaction_of_row clk s)"
      using ne by (simp add: listed_before_stored)
  qed
  then show ?thesis
    by (simp add: get_all_transactions_def sorted_wrt_map)
qed

lemma ledger_empty_date_rows:
  "rows ledger_empty_date =
     [\<lparr>row_id = 1, row_type = ''expense'', row_amount = Fin 300, row_category = ''Food'',
       row_description = [], row_date = [], row_created_at = ''2024-01-05T09:05:00''\<rparr>,
      \<lparr>row_id = 2, row_type = ''expense'', row_amount = Fin 900, row_category = ''Rent'',
       row_description = [], row_date = ''2024-01-02'',
       row_created_at = ''2024-01-05T09:05:00''\<rparr>]"
  by (simp add: ledger_empty_date_def create_def Transaction_init_def Transaction_fields_def
      add_transaction_def next_rowid_def init_db_def type_check_def now_example
      update_transaction_def empty_date_patch_def fields_list_def set_row_def Let_def
      in_int64_def breaks_constraint_def)

text \<open>
  Claim C3. The listing is to be in descending order of date, then of creation time, in
  every state. The query orders the stored rows so, but a stored date that is empty is
  replaced by the current date when the row is turned into an object, after the rows were
  ordered, and \<^verbatim>\<open>update_transaction\<close> stores an empty date where the constructor would
  have put the current one. After two creations and the update \<^verbatim>\<open>{'date': ''}\<close> of the
  first row, the listing is dated 2024-01-02, 2024-01-05: it is not in descending order.
\<close>

theorem listing_not_sorted_after_empty_date:
  "map t_date (get_all_transactions clock_example ledger_empty_date None) =
     [''2024-01-02'', ''2024-01-05'']
   \<and> map t_id (get_all_transactions clock_example ledger_empty_date None) = [Some 2, Some 1]
   \<and> \<not> sorted_wrt listed_before (get_all_transactions clock_example ledger_empty_date None)"
  by (simp add: get_all_transactions_def select_all_def ledger_empty_date_rows sort_by_def
      date_desc_def transaction_of_row_def Transaction_fields_def today_example now_example
      listed_before_def)

subsection \<open>The constraint on the type holds in every reachable state\<close>

text \<open>
  The summaries by category are stated for tables that satisfy the \<^verbatim>\<open>CHECK\<close>
  constraint. The empty table does, and creating, updating and deleting keep it so,
  whether they succeed or fail.
\<close>

lemma types_ok_init: "types_ok init_db"
  by (simp add: types_ok_def init_db_def)

lemma types_ok_add:
  "types_ok db \<Longrightarrow> types_ok (fst (add_transaction db t))"
  by (simp add: types_ok_def add_transaction_def Let_def)

lemma types_ok_create:
  "types_ok db \<Longrightarrow> types_ok (fst (create parse clk db ty am cat descr d))"
  by (simp add: create_def types_ok_add split: sum.splits)

lemma types_ok_update:
  assumes "types_ok db"
  shows "types_ok (fst (update_transaction clk db i p))"
proof (cases "fields_list p = [] \<or> \<not> in_int64 i")
  case True
  with assms show ?thesis by (auto simp: update_transaction_def)
next
  case False
  then have f: "fields_list p \<noteq> []" and k: "in_int64 i" by simp_all
  show ?thesis
  proof (cases "filter (\<lambda>r. row_id r = i) (rows db) = []")
    case True
    then have "\<forall>r \<in> set (rows db). \<not> row_id r = i"
      by (simp add: filter_empty_conv)
    then have "map (\<lambda>r. if row_id r = i then set_row p r else r) (rows db) = rows db"
      by (rule map_no_match)
    with assms True f k show ?thesis
      by (simp add: update_transaction_def Let_def types_ok_def)
  next
    case hit: False
    show ?thesis
    proof (cases "breaks_constraint p")
      case True
      with assms hit f k show ?thesis by (simp add: update_transaction_def Let_def)
    next
      case False
      then have v: "case p_type p of None \<Rightarrow> True | Some ty \<Rightarrow> type_check ty"
        by (simp add: breaks_constraint_def split: option.splits)
      have "type_check (row_type (set_row p r))" if "type_check (row_type r)" for r
        using that v by (cases "p_type p") (simp_all add: set_row_def)
      with assms have "list_all (\<lambda>r. type_check (row_type r))
          (map (\<lambda>r. if row_id r = i then set_row p r else r) (rows db))"
        by (auto simp: types_ok_def list_all_iff)
      with assms hit f k False show ?thesis
        by (simp add: update_transaction_def Let_def types_ok_def)
    qed
  qed
qed

lemma types_ok_delete:
  "types_ok db \<Longrightarrow> types_ok (fst (delete_transaction db i))"
  by (simp add: types_ok_def delete_transaction_def list_all_iff)

end
